theory Spec2Isabelle
  imports Main
begin

section \<open>Python values, JSON documents and the object store\<close>

text \<open>
  The rollback manager of \<^verbatim>\<open>src/rollback/rollback_manager.py\<close> stores arbitrary Python
  values (\<^verbatim>\<open>Dict[str, Any]\<close>). A value is a tree: the scalars, lists, tuples, dictionaries
  in insertion order, and \<open>PObj ty txt\<close> for any other object (a set, a handle, a
  datetime), of which only the type name \<open>ty\<close> and the text \<open>txt\<close> of \<^verbatim>\<open>str(obj)\<close> are
  kept. A dictionary key is a string, an integer, a boolean, \<^verbatim>\<open>None\<close>, or \<open>KOther ty\<close> for
  any other hashable (a tuple, a frozenset), of which only the type name is kept.
  Floating-point leaves and cyclic object graphs are outside this universe.
\<close>

datatype pykey = KStr string | KInt int | KBool bool | KNone | KOther string

datatype pyval =
    PNone
  | PBool bool
  | PInt int
  | PStr string
  | PList "pyval list"
  | PTuple "pyval list"
  | PDict "(pykey \<times> pyval) list"
  | PObj string string

datatype json =
    JNull
  | JBool bool
  | JInt int
  | JStr string
  | JList "json list"
  | JObj "(string \<times> json) list"

datatype exn = TypeError string | ValueError string | AttributeError string | OSError

text \<open>\<^verbatim>\<open>str(n)\<close> of an integer, as used by the f-string of the checkpoint id and by the
  JSON encoder for integer keys.\<close>

definition digit_char :: "nat \<Rightarrow> char" where
  "digit_char d = ''0123456789'' ! d"

fun show_nat :: "nat \<Rightarrow> string" where
  "show_nat n = (if n < 10 then [digit_char n] else show_nat (n div 10) @ [digit_char (n mod 10)])"

declare show_nat.simps [simp del]

definition show_int :: "int \<Rightarrow> string" where
  "show_int i = (if i < 0 then CHR ''-'' # show_nat (nat (- i)) else show_nat (nat i))"

text \<open>Truth value of an object, for \<^verbatim>\<open>metadata or {}\<close>.\<close>

fun py_truthy :: "pyval \<Rightarrow> bool" where
  "py_truthy PNone = False"
| "py_truthy (PBool b) = b"
| "py_truthy (PInt i) = (i \<noteq> 0)"
| "py_truthy (PStr s) = (s \<noteq> [])"
| "py_truthy (PList xs) = (xs \<noteq> [])"
| "py_truthy (PTuple xs) = (xs \<noteq> [])"
| "py_truthy (PDict kvs) = (kvs \<noteq> [])"
| "py_truthy (PObj ty txt) = True"

subsection \<open>The JSON encoder and decoder\<close>

text \<open>
  \<^verbatim>\<open>json.dumps(v)\<close> and \<^verbatim>\<open>json.dump(v, f, indent=2, default=str)\<close>, up to the concrete
  syntax: the encoder maps a value to a JSON document or raises \<^verbatim>\<open>TypeError\<close>. The flag
  \<open>default_str\<close> says whether \<^verbatim>\<open>default=str\<close> was given. Tuples are written as arrays.
  A key that is a string, integer, boolean or \<^verbatim>\<open>None\<close> is written as a string; any other
  key raises, since \<^verbatim>\<open>default\<close> is never consulted for keys. Within an item the key is
  checked before the value is encoded, and the first failure in traversal order is the
  one raised.
\<close>

fun key_text :: "pykey \<Rightarrow> exn + string" where
  "key_text (KStr s) = Inr s"
| "key_text (KInt i) = Inr (show_int i)"
| "key_text (KBool b) = Inr (if b then ''true'' else ''false'')"
| "key_text KNone = Inr ''null''"
| "key_text (KOther ty) =
     Inl (TypeError (''keys must be str, int, float, bool or None, not '' @ ty))"

fun sequence :: "('e + 'a) list \<Rightarrow> 'e + 'a list" where
  "sequence [] = Inr []"
| "sequence (r # rs) =
     (case r of
        Inl e \<Rightarrow> Inl e
      | Inr x \<Rightarrow> (case sequence rs of Inl e \<Rightarrow> Inl e | Inr xs \<Rightarrow> Inr (x # xs)))"

definition encode_item :: "pykey \<times> (exn + json) \<Rightarrow> exn + (string \<times> json)" where
  "encode_item kr =
     (case key_text (fst kr) of
        Inl e \<Rightarrow> Inl e
      | Inr t \<Rightarrow> (case snd kr of Inl e \<Rightarrow> Inl e | Inr j \<Rightarrow> Inr (t, j)))"

primrec json_encode :: "bool \<Rightarrow> pyval \<Rightarrow> exn + json" where
  "json_encode default_str PNone = Inr JNull"
| "json_encode default_str (PBool b) = Inr (JBool b)"
| "json_encode default_str (PInt i) = Inr (JInt i)"
| "json_encode default_str (PStr s) = Inr (JStr s)"
| "json_encode default_str (PList xs) =
     map_sum id JList (sequence (map (json_encode default_str) xs))"
| "json_encode default_str (PTuple xs) =
     map_sum id JList (sequence (map (json_encode default_str) xs))"
| "json_encode default_str (PDict kvs) =
     map_sum id JObj
       (sequence (map encode_item (map (map_prod id (json_encode default_str)) kvs)))"
| "json_encode default_str (PObj ty txt) =
     (if default_str then Inr (JStr txt)
      else Inl (TypeError (''Object of type '' @ ty @ '' is not JSON serializable'')))"

text \<open>\<^verbatim>\<open>d[k] = v\<close> on a dictionary in insertion order: an existing key keeps its place.\<close>

fun dict_set :: "pykey \<Rightarrow> pyval \<Rightarrow> (pykey \<times> pyval) list \<Rightarrow> (pykey \<times> pyval) list" where
  "dict_set k v [] = [(k, v)]"
| "dict_set k v ((k', v') # kvs) =
     (if k' = k then (k', v) # kvs else (k', v') # dict_set k v kvs)"

fun dict_get :: "(pykey \<times> pyval) list \<Rightarrow> pykey \<Rightarrow> pyval option" where
  "dict_get [] k = None"
| "dict_get ((k', v') # kvs) k = (if k' = k then Some v' else dict_get kvs k)"

definition dict_of_pairs :: "(string \<times> pyval) list \<Rightarrow> (pykey \<times> pyval) list" where
  "dict_of_pairs kvs = foldl (\<lambda>d kv. dict_set (KStr (fst kv)) (snd kv) d) [] kvs"

text \<open>\<^verbatim>\<open>json.load\<close> on a well-formed document: a repeated key of an object keeps the last
  value.\<close>

primrec json_load :: "json \<Rightarrow> pyval" where
  "json_load JNull = PNone"
| "json_load (JBool b) = PBool b"
| "json_load (JInt i) = PInt i"
| "json_load (JStr s) = PStr s"
| "json_load (JList xs) = PList (map json_load xs)"
| "json_load (JObj kvs) = PDict (dict_of_pairs (map (map_prod id json_load) kvs))"

subsection \<open>Objects, files and the environment\<close>

text \<open>
  Python passes objects by reference, and the claims about snapshot isolation depend on
  which references are shared. Every object the manager receives, stores or returns is
  therefore a cell of an explicit store: \<open>heap e a\<close> is the value (the whole object graph
  below the reference) at address \<open>a\<close>. A caller mutates an object by writing its cell;
  \<^verbatim>\<open>deepcopy\<close> allocates a fresh cell with the same value. The file system maps a path to
  nothing, to a text that is no JSON document, or to a document; \<open>writable\<close> says whether
  \<^verbatim>\<open>open(path, 'w')\<close> succeeds.
\<close>

type_synonym addr = nat

datatype file_content = Unparsable | Document json

record env =
  heap :: "addr \<Rightarrow> pyval"
  next_addr :: addr
  files :: "string \<Rightarrow> file_content option"
  writable :: "string \<Rightarrow> bool"

definition alloc :: "pyval \<Rightarrow> env \<Rightarrow> addr \<times> env" where
  "alloc v e = (next_addr e, e\<lparr>heap := (heap e)(next_addr e := v), next_addr := Suc (next_addr e)\<rparr>)"

definition deepcopy :: "addr \<Rightarrow> env \<Rightarrow> addr \<times> env" where
  "deepcopy a e = alloc (heap e a) e"

definition write_file :: "string \<Rightarrow> file_content \<Rightarrow> env \<Rightarrow> env" where
  "write_file file_path c e = e\<lparr>files := fun_upd (files e) file_path (Some c)\<rparr>"

definition caller_write :: "addr \<Rightarrow> pyval \<Rightarrow> env \<Rightarrow> env" where
  "caller_write a v e = e\<lparr>heap := (heap e)(a := v)\<rparr>"

section \<open>The rollback manager\<close>

text \<open>
  A timestamp is a naive \<^verbatim>\<open>datetime\<close>, a point of a linear order, here the integers.
  \<^verbatim>\<open>isoformat\<close> and \<^verbatim>\<open>fromisoformat\<close> belong to the standard library and are parameters
  \<open>isoformat\<close> and \<open>fromisoformat\<close> of the operations that call them; \<open>fromisoformat s = None\<close> is the
  \<^verbatim>\<open>ValueError\<close> on a text that does not parse. The field \<^verbatim>\<open>id\<close> is named \<open>rp_id\<close>.
  An imported record may carry any JSON value as id or description, so both fields hold
  values; \<^verbatim>\<open>==\<close> on ids is equality of values, which is Python's on the strings that
  \<^verbatim>\<open>create_checkpoint\<close> issues.
\<close>

type_synonym datetime = int

record rollback_point =
  rp_id :: pyval
  timestamp :: datetime
  description :: pyval
  state_snapshot :: addr
  metadata :: addr

record checkpoint_dict =
  d_id :: pyval
  d_timestamp :: string
  d_description :: pyval
  d_state_snapshot :: addr
  d_metadata :: addr

definition to_dict :: "(datetime \<Rightarrow> string) \<Rightarrow> rollback_point \<Rightarrow> checkpoint_dict" where
  "to_dict isoformat cp =
     \<lparr>d_id = rp_id cp, d_timestamp = isoformat (timestamp cp), d_description = description cp,
      d_state_snapshot = state_snapshot cp, d_metadata = metadata cp\<rparr>"

record config =
  cfg_enabled :: "bool option"
  cfg_max_history :: "int option"
  cfg_auto_cleanup :: "bool option"

record manager =
  enabled :: bool
  max_history :: int
  auto_cleanup :: bool
  rollback_points :: "rollback_point list"
  current_state :: addr
  rollback_count :: nat
  checkpoint_count :: nat

definition RollbackManager_init :: "config \<Rightarrow> env \<Rightarrow> manager \<times> env" where
  "RollbackManager_init cfg e =
     (let (cur, e') = alloc (PDict []) e
      in (\<lparr>enabled = (case cfg_enabled cfg of None \<Rightarrow> True | Some b \<Rightarrow> b),
           max_history = (case cfg_max_history cfg of None \<Rightarrow> 10 | Some k \<Rightarrow> k),
           auto_cleanup = (case cfg_auto_cleanup cfg of None \<Rightarrow> True | Some b \<Rightarrow> b),
           rollback_points = [],
           current_state = cur,
           rollback_count = 0,
           checkpoint_count = 0\<rparr>, e'))"

text \<open>
  \<^verbatim>\<open>create_checkpoint\<close> reads the clock twice: \<open>stamp\<close> is the \<^verbatim>\<open>strftime\<close> text of the first
  reading, \<open>now\<close> the second reading. \<open>state\<close> is the caller's object, \<open>md\<close> the optional
  metadata object. The sentinel for a disabled manager is the empty string.
\<close>

definition checkpoint_name :: "nat \<Rightarrow> string \<Rightarrow> string" where
  "checkpoint_name n stamp = ''checkpoint_'' @ show_nat n @ ''_'' @ stamp"

definition metadata_or_empty :: "addr option \<Rightarrow> env \<Rightarrow> addr \<times> env" where
  "metadata_or_empty md e =
     (case md of
        None \<Rightarrow> alloc (PDict []) e
      | Some a \<Rightarrow> if py_truthy (heap e a) then (a, e) else alloc (PDict []) e)"

definition create_checkpoint ::
  "string \<Rightarrow> datetime \<Rightarrow> string \<Rightarrow> addr \<Rightarrow> addr option \<Rightarrow> manager \<Rightarrow> env \<Rightarrow> string \<times> manager \<times> env"
where
  "create_checkpoint stamp now descr state md m e =
     (if \<not> enabled m then ('''', m, e)
      else
        let checkpoint_id = checkpoint_name (checkpoint_count m) stamp;
            (snap, e1) = deepcopy state e;
            (meta, e2) = metadata_or_empty md e1;
            rollback_point = \<lparr>rp_id = PStr checkpoint_id, timestamp = now,
                              description = PStr descr, state_snapshot = snap,
                              metadata = meta\<rparr>;
            appended = rollback_points m @ [rollback_point];
            (cur, e3) = deepcopy state e2;
            kept = (if auto_cleanup m \<and> int (length appended) > max_history m
                    then tl appended else appended)
        in (checkpoint_id,
            m\<lparr>rollback_points := kept, current_state := cur,
              checkpoint_count := checkpoint_count m + 1\<rparr>,
            e3))"

definition rollback_to_checkpoint ::
  "pyval \<Rightarrow> manager \<Rightarrow> env \<Rightarrow> addr option \<times> manager \<times> env"
where
  "rollback_to_checkpoint checkpoint_id m e =
     (if \<not> enabled m then (None, m, e)
      else
        case find (\<lambda>cp. rp_id cp = checkpoint_id) (rollback_points m) of
          None \<Rightarrow> (None, m, e)
        | Some target \<Rightarrow>
            let (restored, e') = deepcopy (state_snapshot target) e
            in (Some restored,
                m\<lparr>current_state := restored, rollback_count := rollback_count m + 1\<rparr>,
                e'))"

text \<open>\<^verbatim>\<open>max(xs, key=...)\<close> keeps the first maximal element: the running best is replaced
  only by a strictly greater key.\<close>

fun py_max :: "('a \<Rightarrow> int) \<Rightarrow> 'a \<Rightarrow> 'a list \<Rightarrow> 'a" where
  "py_max key best [] = best"
| "py_max key best (x # xs) = py_max key (if key x > key best then x else best) xs"

definition rollback_to_latest :: "manager \<Rightarrow> env \<Rightarrow> addr option \<times> manager \<times> env" where
  "rollback_to_latest m e =
     (case rollback_points m of
        [] \<Rightarrow> (None, m, e)
      | cp # rest \<Rightarrow> rollback_to_checkpoint (rp_id (py_max timestamp cp rest)) m e)"

text \<open>\<^verbatim>\<open>sorted(xs, key=..., reverse=True)\<close> is stable: elements with equal keys keep their
  original order. On integer keys that is the stable ascending sort by the negated key.\<close>

definition py_sorted_reverse :: "('a \<Rightarrow> int) \<Rightarrow> 'a list \<Rightarrow> 'a list" where
  "py_sorted_reverse key xs = sort_key (\<lambda>x. - key x) xs"

definition rollback_n_steps :: "int \<Rightarrow> manager \<Rightarrow> env \<Rightarrow> addr option \<times> manager \<times> env" where
  "rollback_n_steps steps m e =
     (if rollback_points m = [] then (None, m, e)
      else if steps \<le> 0 \<or> steps > int (length (rollback_points m)) then (None, m, e)
      else
        let sorted_checkpoints = py_sorted_reverse timestamp (rollback_points m);
            target = sorted_checkpoints ! nat (steps - 1)
        in rollback_to_checkpoint (rp_id target) m e)"

definition get_checkpoint_history :: "(datetime \<Rightarrow> string) \<Rightarrow> manager \<Rightarrow> checkpoint_dict list" where
  "get_checkpoint_history isoformat m =
     map (to_dict isoformat) (py_sorted_reverse timestamp (rollback_points m))"

definition get_checkpoint :: "(datetime \<Rightarrow> string) \<Rightarrow> pyval \<Rightarrow> manager \<Rightarrow> checkpoint_dict option" where
  "get_checkpoint isoformat checkpoint_id m =
     map_option (to_dict isoformat) (find (\<lambda>cp. rp_id cp = checkpoint_id) (rollback_points m))"

fun pop_first :: "('a \<Rightarrow> bool) \<Rightarrow> 'a list \<Rightarrow> 'a list option" where
  "pop_first P [] = None"
| "pop_first P (x # xs) = (if P x then Some xs else map_option (Cons x) (pop_first P xs))"

definition delete_checkpoint :: "pyval \<Rightarrow> manager \<Rightarrow> bool \<times> manager" where
  "delete_checkpoint checkpoint_id m =
     (case pop_first (\<lambda>cp. rp_id cp = checkpoint_id) (rollback_points m) of
        None \<Rightarrow> (False, m)
      | Some rest \<Rightarrow> (True, m\<lparr>rollback_points := rest\<rparr>))"

text \<open>\<^verbatim>\<open>clear_history\<close> empties the list and then calls \<^verbatim>\<open>.clear()\<close> on the current state
  object in place; an object without that method raises after the list was emptied.\<close>

fun py_clear :: "pyval \<Rightarrow> exn + pyval" where
  "py_clear (PDict kvs) = Inr (PDict [])"
| "py_clear (PList xs) = Inr (PList [])"
| "py_clear v = Inl (AttributeError ''clear'')"

definition clear_history :: "manager \<Rightarrow> env \<Rightarrow> exn option \<times> manager \<times> env" where
  "clear_history m e =
     (let m' = m\<lparr>rollback_points := []\<rparr>
      in case py_clear (heap e (current_state m)) of
           Inl x \<Rightarrow> (Some x, m', e)
         | Inr v \<Rightarrow> (None, m', e\<lparr>heap := (heap e)(current_state m := v)\<rparr>))"

text \<open>
  \<^verbatim>\<open>export_checkpoint\<close> encodes the dictionary of \<^verbatim>\<open>to_dict\<close>, whose payload and metadata
  entries are the stored objects, with \<^verbatim>\<open>default=str\<close>. The file is opened (and truncated)
  before the encoder runs, so an encoder failure leaves a text that is no document.
\<close>

definition dict_value :: "checkpoint_dict \<Rightarrow> env \<Rightarrow> pyval" where
  "dict_value d e =
     PDict [(KStr ''id'', d_id d),
            (KStr ''timestamp'', PStr (d_timestamp d)),
            (KStr ''description'', d_description d),
            (KStr ''state_snapshot'', heap e (d_state_snapshot d)),
            (KStr ''metadata'', heap e (d_metadata d))]"

definition export_checkpoint ::
  "(datetime \<Rightarrow> string) \<Rightarrow> pyval \<Rightarrow> string \<Rightarrow> manager \<Rightarrow> env \<Rightarrow> bool \<times> env"
where
  "export_checkpoint isoformat checkpoint_id file_path m e =
     (case get_checkpoint isoformat checkpoint_id m of
        None \<Rightarrow> (False, e)
      | Some checkpoint_data \<Rightarrow>
          if \<not> writable e file_path then (False, e)
          else
            case json_encode True (dict_value checkpoint_data e) of
              Inl x \<Rightarrow> (False, write_file file_path Unparsable e)
            | Inr j \<Rightarrow> (True, write_file file_path (Document j) e))"

text \<open>
  \<^verbatim>\<open>import_checkpoint\<close>: every exception is caught and turns into \<^verbatim>\<open>None\<close>. A missing
  file, a text that is no document, a document that is no object, a missing required
  key, a timestamp that is no string or does not parse: all fail before the append.
\<close>

definition required_keys :: "string list" where
  "required_keys = [''id'', ''timestamp'', ''description'', ''state_snapshot'']"

definition import_record ::
  "(string \<Rightarrow> datetime option) \<Rightarrow> (pykey \<times> pyval) list \<Rightarrow> manager \<Rightarrow> env \<Rightarrow> pyval option \<times> manager \<times> env"
where
  "import_record fromisoformat checkpoint_data m e =
     (if \<not> list_all (\<lambda>key. dict_get checkpoint_data (KStr key) \<noteq> None) required_keys
      then (None, m, e)
      else
        case (dict_get checkpoint_data (KStr ''id''),
              dict_get checkpoint_data (KStr ''timestamp''),
              dict_get checkpoint_data (KStr ''description''),
              dict_get checkpoint_data (KStr ''state_snapshot'')) of
          (Some i, Some (PStr ts), Some descr, Some snap_value) \<Rightarrow>
            (case fromisoformat ts of
               None \<Rightarrow> (None, m, e)
             | Some t \<Rightarrow>
                 let (snap, e1) = alloc snap_value e;
                     (meta, e2) =
                       alloc (case dict_get checkpoint_data (KStr ''metadata'') of
                                None \<Rightarrow> PDict [] | Some v \<Rightarrow> v) e1;
                     rollback_point = \<lparr>rp_id = i, timestamp = t, description = descr,
                                       state_snapshot = snap, metadata = meta\<rparr>
                 in (Some i, m\<lparr>rollback_points := rollback_points m @ [rollback_point]\<rparr>, e2))
        | _ \<Rightarrow> (None, m, e))"

definition import_checkpoint ::
  "(string \<Rightarrow> datetime option) \<Rightarrow> string \<Rightarrow> manager \<Rightarrow> env \<Rightarrow> pyval option \<times> manager \<times> env"
where
  "import_checkpoint fromisoformat file_path m e =
     (case files e file_path of
        None \<Rightarrow> (None, m, e)
      | Some Unparsable \<Rightarrow> (None, m, e)
      | Some (Document j) \<Rightarrow>
          (case json_load j of
             PDict checkpoint_data \<Rightarrow> import_record fromisoformat checkpoint_data m e
           | _ \<Rightarrow> (None, m, e)))"

text \<open>\<^verbatim>\<open>validate_state_integrity\<close>: a strict \<^verbatim>\<open>json.dumps\<close> of every stored payload.\<close>

record report =
  total_checkpoints :: nat
  valid_checkpoints :: nat
  invalid_checkpoints :: nat
  errors :: "(pyval \<times> string) list"

fun exn_text :: "exn \<Rightarrow> string" where
  "exn_text (TypeError s) = s"
| "exn_text (ValueError s) = s"
| "exn_text (AttributeError s) = s"
| "exn_text OSError = []"

fun validate_loop :: "env \<Rightarrow> rollback_point list \<Rightarrow> report \<Rightarrow> report" where
  "validate_loop e [] r = r"
| "validate_loop e (checkpoint # rest) r =
     validate_loop e rest
       (case json_encode False (heap e (state_snapshot checkpoint)) of
          Inr j \<Rightarrow> r\<lparr>valid_checkpoints := valid_checkpoints r + 1\<rparr>
        | Inl x \<Rightarrow> r\<lparr>invalid_checkpoints := invalid_checkpoints r + 1,
                      errors := errors r @ [(rp_id checkpoint, exn_text x)]\<rparr>)"

definition validate_state_integrity :: "manager \<Rightarrow> env \<Rightarrow> report" where
  "validate_state_integrity m e =
     validate_loop e (rollback_points m)
       \<lparr>total_checkpoints = length (rollback_points m), valid_checkpoints = 0,
        invalid_checkpoints = 0, errors = []\<rparr>"

section \<open>Sequences of calls on one manager\<close>

text \<open>
  A client drives one manager through any sequence of its methods, and may write to any
  object in between. \<open>run\<close> collects, in order, the ids that the calls of
  \<^verbatim>\<open>create_checkpoint\<close> returned.
\<close>

datatype call =
    Create string datetime string addr "addr option"
  | RollbackTo pyval
  | RollbackLatest
  | RollbackN int
  | Delete pyval
  | Clear
  | Export pyval string
  | Import string
  | CallerWrite addr pyval

fun step ::
  "(datetime \<Rightarrow> string) \<Rightarrow> (string \<Rightarrow> datetime option) \<Rightarrow> call \<Rightarrow> manager \<Rightarrow> env
     \<Rightarrow> string list \<times> manager \<times> env"
where
  "step isoformat fromisoformat (Create stamp now descr state md) m e =
     (case create_checkpoint stamp now descr state md m e of (i, m', e') \<Rightarrow> ([i], m', e'))"
| "step isoformat fromisoformat (RollbackTo i) m e =
     (case rollback_to_checkpoint i m e of (r, m', e') \<Rightarrow> ([], m', e'))"
| "step isoformat fromisoformat RollbackLatest m e =
     (case rollback_to_latest m e of (r, m', e') \<Rightarrow> ([], m', e'))"
| "step isoformat fromisoformat (RollbackN n) m e =
     (case rollback_n_steps n m e of (r, m', e') \<Rightarrow> ([], m', e'))"
| "step isoformat fromisoformat (Delete i) m e =
     (case delete_checkpoint i m of (r, m') \<Rightarrow> ([], m', e))"
| "step isoformat fromisoformat Clear m e =
     (case clear_history m e of (r, m', e') \<Rightarrow> ([], m', e'))"
| "step isoformat fromisoformat (Export i file_path) m e =
     (case export_checkpoint isoformat i file_path m e of (r, e') \<Rightarrow> ([], m, e'))"
| "step isoformat fromisoformat (Import file_path) m e =
     (case import_checkpoint fromisoformat file_path m e of (r, m', e') \<Rightarrow> ([], m', e'))"
| "step isoformat fromisoformat (CallerWrite a v) m e = ([], m, caller_write a v e)"

fun run ::
  "(datetime \<Rightarrow> string) \<Rightarrow> (string \<Rightarrow> datetime option) \<Rightarrow> call list \<Rightarrow> manager \<Rightarrow> env
     \<Rightarrow> string list"
where
  "run isoformat fromisoformat [] m e = []"
| "run isoformat fromisoformat (c # cs) m e =
     (case step isoformat fromisoformat c m e of
        (ids, m', e') \<Rightarrow> ids @ run isoformat fromisoformat cs m' e')"

section \<open>Worked examples\<close>

text \<open>
  The concrete inputs of the examples below. The clock text is a stand-in for the library
  pair \<^verbatim>\<open>isoformat\<close>/\<^verbatim>\<open>fromisoformat\<close>: the timestamp in decimal.
\<close>

definition digit_value :: "char \<Rightarrow> nat option" where
  "digit_value c = map_of (zip ''0123456789'' [0, 1, 2, 3, 4, 5, 6, 7, 8, 9]) c"

fun parse_digits :: "nat \<Rightarrow> string \<Rightarrow> nat option" where
  "parse_digits acc [] = Some acc"
| "parse_digits acc (c # cs) =
     (case digit_value c of None \<Rightarrow> None | Some d \<Rightarrow> parse_digits (10 * acc + d) cs)"

definition tick_text :: "datetime \<Rightarrow> string" where
  "tick_text t = show_int t"

definition tick_parse :: "string \<Rightarrow> datetime option" where
  "tick_parse s =
     (case s of
        [] \<Rightarrow> None
      | c # cs \<Rightarrow>
          if c = CHR ''-'' then (if cs = [] then None else map_option (\<lambda>n. - int n) (parse_digits 0 cs))
          else map_option int (parse_digits 0 s))"

definition env0 :: env where
  "env0 = \<lparr>heap = (\<lambda>a. PNone), next_addr = 1, files = (\<lambda>p. None), writable = (\<lambda>p. True)\<rparr>"

text \<open>The caller owns one state object, \<^verbatim>\<open>{"x": 1}\<close>, at address 0.\<close>

definition caller_env :: env where
  "caller_env = caller_write 0 (PDict [(KStr ''x'', PInt 1)]) env0"

definition default_config :: config where
  "default_config = \<lparr>cfg_enabled = None, cfg_max_history = None, cfg_auto_cleanup = None\<rparr>"

definition disabled_config :: config where
  "disabled_config = \<lparr>cfg_enabled = Some False, cfg_max_history = None, cfg_auto_cleanup = None\<rparr>"

section \<open>Properties\<close>

subsection \<open>Checkpoint ids\<close>

lemma digit_char_not_underscore: "d < 10 \<Longrightarrow> digit_char d \<noteq> CHR ''_''"
proof -
  assume "d < 10"
  then have "d \<in> {0,1,2,3,4,5,6,7,8,9}" by auto
  then show ?thesis by (auto simp: digit_char_def)
qed

lemma digit_char_inj: "a < 10 \<Longrightarrow> b < 10 \<Longrightarrow> digit_char a = digit_char b \<Longrightarrow> a = b"
proof -
  assume "a < 10" "b < 10" and eq: "digit_char a = digit_char b"
  then have "a \<in> {0,1,2,3,4,5,6,7,8,9}" "b \<in> {0,1,2,3,4,5,6,7,8,9}" by auto
  with eq show ?thesis by (auto simp: digit_char_def)
qed

lemma show_nat_not_Nil: "show_nat n \<noteq> []"
  by (subst show_nat.simps) simp

lemma show_nat_last: "last (show_nat n) = digit_char (n mod 10)"
  by (subst show_nat.simps) simp

lemma show_nat_butlast: "butlast (show_nat n) = (if n < 10 then [] else show_nat (n div 10))"
  by (subst show_nat.simps) simp

lemma show_nat_no_underscore: "CHR ''_'' \<notin> set (show_nat n)"
proof (induction n rule: show_nat.induct)
  case (1 n)
  show ?case
  proof (cases "n < 10")
    case True
    then show ?thesis
      using digit_char_not_underscore [of n] by (subst show_nat.simps) auto
  next
    case False
    then show ?thesis
      using 1 digit_char_not_underscore [of "n mod 10"] by (subst show_nat.simps) auto
  qed
qed

lemma show_nat_inj: "show_nat a = show_nat b \<Longrightarrow> a = b"
proof (induction a arbitrary: b rule: show_nat.induct)
  case (1 n)
  have "digit_char (n mod 10) = digit_char (b mod 10)"
    using "1.prems" show_nat_last [of n] show_nat_last [of b] by simp
  then have m: "n mod 10 = b mod 10"
    by (rule digit_char_inj [rotated 2]) simp_all
  have bl: "(if n < 10 then [] else show_nat (n div 10))
          = (if b < 10 then [] else show_nat (b div 10))"
    using "1.prems" show_nat_butlast [of n] show_nat_butlast [of b] by simp
  show ?case
  proof (cases "n < 10")
    case True
    have "b < 10"
    proof (rule ccontr)
      assume "\<not> b < 10"
      with bl True have "show_nat (b div 10) = []" by simp
      then show False by (simp add: show_nat_not_Nil)
    qed
    with True m show ?thesis by simp
  next
    case False
    have b10: "\<not> b < 10"
    proof
      assume "b < 10"
      with bl False have "show_nat (n div 10) = []" by simp
      then show False by (simp add: show_nat_not_Nil)
    qed
    with bl False have "show_nat (n div 10) = show_nat (b div 10)" by simp
    with False "1.IH" have d: "n div 10 = b div 10" by blast
    have "n = 10 * (n div 10) + n mod 10" by simp
    also have "\<dots> = 10 * (b div 10) + b mod 10" using d m by simp
    also have "\<dots> = b" by simp
    finally show ?thesis .
  qed
qed

lemma append_sep_eq:
  "c \<notin> set xs \<Longrightarrow> c \<notin> set xs' \<Longrightarrow> xs @ c # ys = xs' @ c # ys' \<Longrightarrow> xs = xs'"
proof (induction xs arbitrary: xs')
  case Nil
  then show ?case by (cases xs') auto
next
  case (Cons x xs)
  then show ?case by (cases xs') auto
qed

lemma checkpoint_name_inj: "checkpoint_name a s = checkpoint_name b t \<Longrightarrow> a = b"
proof -
  assume "checkpoint_name a s = checkpoint_name b t"
  then have "show_nat a @ CHR ''_'' # s = show_nat b @ CHR ''_'' # t"
    unfolding checkpoint_name_def by simp
  then have "show_nat a = show_nat b"
    by (rule append_sep_eq [OF show_nat_no_underscore show_nat_no_underscore])
  then show ?thesis by (rule show_nat_inj)
qed

lemma checkpoint_name_not_Nil: "checkpoint_name a s \<noteq> []"
  unfolding checkpoint_name_def by simp

lemma rollback_to_checkpoint_count:
  "rollback_to_checkpoint i m e = (r, m', e') \<Longrightarrow> checkpoint_count m' = checkpoint_count m"
  by (auto simp: rollback_to_checkpoint_def split: if_splits option.splits prod.splits)

lemma import_record_count:
  "import_record f kvs m e = (r, m', e') \<Longrightarrow> checkpoint_count m' = checkpoint_count m"
  by (auto simp: import_record_def split: if_splits option.splits prod.splits pyval.splits)

lemma import_checkpoint_count:
  "import_checkpoint f p m e = (r, m', e') \<Longrightarrow> checkpoint_count m' = checkpoint_count m"
  by (auto simp: import_checkpoint_def split: option.splits file_content.splits pyval.splits
      dest: import_record_count)

lemma step_count:
  assumes "step isoformat fromisoformat c m e = (ids, m', e')"
  shows "(ids = [] \<and> checkpoint_count m' = checkpoint_count m)
       \<or> (ids = [[]] \<and> checkpoint_count m' = checkpoint_count m)
       \<or> (\<exists>stamp. ids = [checkpoint_name (checkpoint_count m) stamp]
             \<and> checkpoint_count m' = Suc (checkpoint_count m))"
proof (cases c)
  case (Create stamp now descr state md)
  with assms show ?thesis
    by (auto simp: create_checkpoint_def Let_def split: if_splits prod.splits)
next
  case (RollbackTo i)
  with assms show ?thesis
    by (auto split: prod.splits dest: rollback_to_checkpoint_count)
next
  case RollbackLatest
  with assms show ?thesis
    by (auto simp: rollback_to_latest_def split: prod.splits list.splits
        dest: rollback_to_checkpoint_count)
next
  case (RollbackN n)
  with assms show ?thesis
    by (auto simp: rollback_n_steps_def Let_def split: prod.splits if_splits
        dest: rollback_to_checkpoint_count)
next
  case (Delete i)
  with assms show ?thesis
    by (auto simp: delete_checkpoint_def split: prod.splits option.splits)
next
  case Clear
  with assms show ?thesis
    by (auto simp: clear_history_def Let_def split: prod.splits sum.splits)
next
  case (Export i p)
  with assms show ?thesis by (auto split: prod.splits)
next
  case (Import p)
  with assms show ?thesis
    by (auto split: prod.splits dest: import_checkpoint_count)
next
  case (CallerWrite a v)
  with assms show ?thesis by auto
qed

lemma run_ids_counter:
  "i \<in> set (run isoformat fromisoformat cs m e) \<Longrightarrow> i \<noteq> [] \<Longrightarrow>
     \<exists>n stamp. checkpoint_count m \<le> n \<and> i = checkpoint_name n stamp"
proof (induction cs arbitrary: m e)
  case Nil
  then show ?case by simp
next
  case (Cons c cs)
  obtain ids m' e' where st: "step isoformat fromisoformat c m e = (ids, m', e')"
    by (cases "step isoformat fromisoformat c m e") auto
  from Cons.prems st have "i \<in> set ids \<or> i \<in> set (run isoformat fromisoformat cs m' e')"
    by auto
  then show ?case
  proof
    assume "i \<in> set ids"
    with step_count [OF st] Cons.prems(2) show ?thesis
      by (auto intro!: exI [of _ "checkpoint_count m"])
  next
    assume "i \<in> set (run isoformat fromisoformat cs m' e')"
    from Cons.IH [OF this Cons.prems(2)] obtain n stamp
      where "checkpoint_count m' \<le> n" "i = checkpoint_name n stamp" by blast
    moreover from step_count [OF st] have "checkpoint_count m \<le> checkpoint_count m'" by auto
    ultimately have "checkpoint_count m \<le> n \<and> i = checkpoint_name n stamp" by simp
    then show ?thesis by blast
  qed
qed

text \<open>
  Claim C6. Over every sequence of calls on one manager (creations interleaved with
  rollbacks, deletions, clearing the history, exports, imports and writes by the caller),
  the ids returned by \<^verbatim>\<open>create_checkpoint\<close>, leaving out the sentinel \<^verbatim>\<open>""\<close> of a disabled
  manager, are pairwise distinct: the counter in the id only ever grows, so an id is not
  issued again after its entry was evicted, deleted or cleared.
\<close>

theorem created_ids_distinct:
  "distinct (filter (\<lambda>i. i \<noteq> []) (run isoformat fromisoformat cs m e))"
proof (induction cs arbitrary: m e)
  case Nil
  show ?case by simp
next
  case (Cons c cs)
  obtain ids m' e' where st: "step isoformat fromisoformat c m e = (ids, m', e')"
    by (cases "step isoformat fromisoformat c m e") auto
  have rest: "distinct (filter (\<lambda>i. i \<noteq> []) (run isoformat fromisoformat cs m' e'))"
    by (rule Cons.IH)
  from step_count [OF st] consider
      "filter (\<lambda>i. i \<noteq> []) ids = []"
    | stamp where "ids = [checkpoint_name (checkpoint_count m) stamp]"
        "checkpoint_count m' = Suc (checkpoint_count m)"
    by auto
  then show ?case
  proof cases
    case 1
    with st rest show ?thesis by simp
  next
    case 2
    have "checkpoint_name (checkpoint_count m) stamp
            \<notin> set (run isoformat fromisoformat cs m' e')"
    proof
      assume mem: "checkpoint_name (checkpoint_count m) stamp
                     \<in> set (run isoformat fromisoformat cs m' e')"
      from run_ids_counter [OF mem checkpoint_name_not_Nil] obtain n stamp'
        where "checkpoint_count m' \<le> n"
          "checkpoint_name (checkpoint_count m) stamp = checkpoint_name n stamp'" by blast
      with checkpoint_name_inj 2(2) show False by fastforce
    qed
    with st rest 2 show ?thesis by (simp add: checkpoint_name_not_Nil)
  qed
qed

theorem created_ids_distinct_witness:
  "distinct (filter (\<lambda>i. i \<noteq> [])
     (run tick_text tick_parse
        [Create ''20240101_120000'' 5 ''init'' 0 None, Clear,
         Create ''20240101_120000'' 5 ''again'' 0 None, Delete (PStr ''checkpoint_1_20240101_120000''),
         Create ''20240101_120000'' 6 ''final'' 0 None]
        (fst (RollbackManager_init default_config caller_env))
        (snd (RollbackManager_init default_config caller_env))))"
  by (rule created_ids_distinct)

subsection \<open>A disabled manager\<close>

text \<open>
  Claim C9. When the manager is configured off, \<^verbatim>\<open>create_checkpoint\<close> returns the empty
  string as a sentinel value and changes nothing; it raises no exception.
\<close>

theorem create_checkpoint_disabled:
  "\<not> enabled m \<Longrightarrow> create_checkpoint stamp now descr state md m e = ([], m, e)"
  by (simp add: create_checkpoint_def)

theorem create_checkpoint_disabled_witness:
  "\<not> enabled (fst (RollbackManager_init disabled_config caller_env))
   \<and> create_checkpoint ''20240101_120000'' 5 ''init'' 0 None
        (fst (RollbackManager_init disabled_config caller_env))
        (snd (RollbackManager_init disabled_config caller_env))
     = ([], fst (RollbackManager_init disabled_config caller_env),
        snd (RollbackManager_init disabled_config caller_env))"
  using create_checkpoint_disabled
    [of "fst (RollbackManager_init disabled_config caller_env)" "''20240101_120000''" 5
        "''init''" 0 None "snd (RollbackManager_init disabled_config caller_env)"]
  by (simp add: RollbackManager_init_def disabled_config_def alloc_def)

end
